theory Spec2Isabelle
  imports Complex_Main
begin

section \<open>Exceptions as values\<close>

text \<open>
  Every exception that the Python code can raise is a value of \<open>error\<close>; a computation
  that may raise returns \<open>error + 'a\<close>, with \<open>Inl\<close> for the exception. \<open>External\<close>
  stands for whatever the imported flux-conversion primitive raises.
\<close>

datatype error = IndexError | NameError | TypeError | ValueError | External string

definition bind_e :: "error + 'a \<Rightarrow> ('a \<Rightarrow> error + 'b) \<Rightarrow> error + 'b" where
  "bind_e m k = (case m of Inl e \<Rightarrow> Inl e | Inr x \<Rightarrow> k x)"

text \<open>A list comprehension whose element expression may raise: the first exception wins.\<close>

fun mapM_e :: "('a \<Rightarrow> error + 'b) \<Rightarrow> 'a list \<Rightarrow> error + 'b list" where
  "mapM_e f [] = Inr []"
| "mapM_e f (x # xs) = bind_e (f x) (\<lambda>y. bind_e (mapM_e f xs) (\<lambda>ys. Inr (y # ys)))"

section \<open>Floating-point numbers\<close>

text \<open>
  The code computes on numpy doubles. Their arithmetic is kept abstract: a type \<open>'f\<close> of
  floating-point values with the not-a-number value, the conversion of an integer literal,
  multiplication and division (numpy's division never raises). Every result below holds
  for all such operations, hence for IEEE doubles.
\<close>

record 'f float_ops =
  f_nan :: 'f
  f_of_int :: "int \<Rightarrow> 'f"
  f_mul :: "'f \<Rightarrow> 'f \<Rightarrow> 'f"
  f_div :: "'f \<Rightarrow> 'f \<Rightarrow> 'f"

section \<open>Tables\<close>

text \<open>
  One row of the alert history \<open>pdf\<close> handed to \<open>standardized_flux_\<close>: a pandas frame is a
  list of rows, so all its columns have the same length by construction.
\<close>

record 'f epoch =
  candid :: int
  objectId :: string
  cdistnr :: 'f
  cmagpsf :: 'f
  csigmapsf :: 'f
  cmagnr :: 'f
  csigmagnr :: 'f
  cisdiffpos :: string
  cfid :: int
  cjd :: 'f

text \<open>One row of the table of monitored sources (columns "ZTF Name", "Array of Medians").\<close>

record 'f catalog_row =
  ZTF_Name :: string
  Array_of_Medians :: "'f list"

text \<open>
  One row of the batch frame built in the pandas UDF: scalar identifiers and one array
  per concatenated history column.
\<close>

record 'f batch_row =
  row_candid :: int
  row_objectId :: string
  row_cdistnr :: "'f list"
  row_cmagpsf :: "'f list"
  row_csigmapsf :: "'f list"
  row_cmagnr :: "'f list"
  row_csigmagnr :: "'f list"
  row_cisdiffpos :: "string list"
  row_cfid :: "int list"
  row_cjd :: "'f list"

section \<open>Python and numpy primitives\<close>

text \<open>Indexing a sequence: negative indices count from the end, anything else out of
  range raises \<open>IndexError\<close>.\<close>

definition py_index :: "'a list \<Rightarrow> int \<Rightarrow> error + 'a" where
  "py_index xs i =
     (if 0 \<le> i \<and> i < int (length xs) then Inr (xs ! nat i)
      else if - int (length xs) \<le> i \<and> i < 0 then Inr (xs ! nat (int (length xs) + i))
      else Inl IndexError)"

text \<open>\<open>Series.unique()\<close>: the distinct values in order of first appearance.\<close>

definition unique :: "'a list \<Rightarrow> 'a list" where
  "unique xs = fold (\<lambda>x acc. if x \<in> set acc then acc else acc @ [x]) xs []"

text \<open>\<open>a[mask]\<close>: the elements of \<open>a\<close> at the positions where the mask is true.\<close>

fun mask_select :: "'a list \<Rightarrow> bool list \<Rightarrow> 'a list" where
  "mask_select (x # xs) (m # ms) = (if m then x # mask_select xs ms else mask_select xs ms)"
| "mask_select _ _ = []"

text \<open>\<open>a[mask] = vs\<close>: the positions of \<open>a\<close> where the mask is true receive the
  values \<open>vs\<close> in order.\<close>

fun mask_assign :: "'a list \<Rightarrow> bool list \<Rightarrow> 'a list \<Rightarrow> 'a list" where
  "mask_assign (x # xs) (m # ms) vs =
     (if m then (case vs of [] \<Rightarrow> x # xs | v # vs' \<Rightarrow> v # mask_assign xs ms vs')
      else x # mask_assign xs ms vs)"
| "mask_assign xs _ _ = xs"

text \<open>Unpacking an array into two targets raises \<open>ValueError\<close> unless it has two rows.\<close>

definition unpack2 :: "'a list \<Rightarrow> error + 'a \<times> 'a" where
  "unpack2 xs = (case xs of [a, b] \<Rightarrow> Inr (a, b) | _ \<Rightarrow> Inl ValueError)"

section \<open>The module namespace of \<open>utils.py\<close>\<close>

text \<open>
  A free name of a function body is looked up in the globals of its module when the
  line runs. The module \<open>utils.py\<close> binds exactly four names: its imports \<open>np\<close>, \<open>pd\<close>
  and \<open>apparent_flux\<close>, and the function it defines. Loading any other name raises
  \<open>NameError\<close>.
\<close>

datatype 'f pyobj = Module | Function | Table "'f catalog_row list"

definition utils_globals :: "string \<Rightarrow> 'f pyobj option" where
  "utils_globals =
     [''np'' \<mapsto> Module, ''pd'' \<mapsto> Module, ''apparent_flux'' \<mapsto> Function,
      ''standardized_flux_'' \<mapsto> Function]"

definition load_global :: "string \<Rightarrow> error + 'f pyobj" where
  "load_global name = (case utils_globals name of None \<Rightarrow> Inl NameError | Some v \<Rightarrow> Inr v)"

text \<open>\<open>obj['Array of Medians'].values\<close>: only a table can be subscripted by a column name.\<close>

definition Array_of_Medians_values :: "'f pyobj \<Rightarrow> error + 'f list list" where
  "Array_of_Medians_values obj =
     (case obj of Table t \<Rightarrow> Inr (map Array_of_Medians t) | _ \<Rightarrow> Inl TypeError)"

section \<open>The normalizer\<close>

text \<open>
  Lines 38 to 48: the primitive \<open>apparent_flux\<close> (imported from another package, hence a
  parameter here, and allowed to raise) is applied to every row in order; the list of
  pairs is transposed, multiplied by 1000 and unpacked into the two scaled sequences.
  The four magnitude columns hold doubles already, on which \<open>astype(float)\<close> is the
  identity.
\<close>

definition flux_dc_sigma_flux_dc ::
  "'f float_ops \<Rightarrow> ('f \<Rightarrow> 'f \<Rightarrow> 'f \<Rightarrow> 'f \<Rightarrow> string \<Rightarrow> error + 'f \<times> 'f) \<Rightarrow> 'f epoch list
     \<Rightarrow> error + 'f list \<times> 'f list" where
  "flux_dc_sigma_flux_dc np apparent_flux pdf =
     bind_e (mapM_e (\<lambda>r. apparent_flux (cmagpsf r) (csigmapsf r) (cmagnr r) (csigmagnr r)
                              (cisdiffpos r)) pdf)
       (\<lambda>res. unpack2 (map (map (f_mul np (f_of_int np 1000)))
                          (transpose (map (\<lambda>(flux, sigma). [flux, sigma]) res))))"

text \<open>
  Lines 50 to 54: the loop over the distinct filter values. The median is read through
  the name \<open>precomputed_data\<close>, which is resolved in the module namespace.
\<close>

fun filter_loop ::
  "'f float_ops \<Rightarrow> 'f epoch list \<Rightarrow> 'f list \<Rightarrow> 'f list \<Rightarrow> int list \<Rightarrow> 'f list \<times> 'f list
     \<Rightarrow> error + 'f list \<times> 'f list" where
  "filter_loop np pdf flux_dc sigma_flux_dc [] out = Inr out"
| "filter_loop np pdf flux_dc sigma_flux_dc (filt # rest) (std_flux, sigma_std_flux) =
     (let maskFilt = map (\<lambda>r. cfid r = filt) pdf in
      bind_e (load_global ''precomputed_data'') (\<lambda>precomputed_data.
      bind_e (Array_of_Medians_values precomputed_data) (\<lambda>vals.
      bind_e (py_index vals 0) (\<lambda>medians.
      bind_e (py_index medians (filt - 1)) (\<lambda>median.
        filter_loop np pdf flux_dc sigma_flux_dc rest
          (mask_assign std_flux maskFilt
             (map (\<lambda>x. f_div np x median) (mask_select flux_dc maskFilt)),
           mask_assign sigma_std_flux maskFilt
             (map (\<lambda>x. f_div np x median) (mask_select sigma_flux_dc maskFilt))))))))"

text \<open>
  The whole function \<open>standardized_flux_\<close> of \<open>utils.py\<close> (a constant name cannot
  end with an underscore, so it is \<open>standardized_flux_alert\<close> here).
  \<open>pdf['objectId'].values[0]\<close> raises \<open>IndexError\<close> on a frame
  without rows; the catalog rows whose name equals that first objectId are selected, and
  the fluxes are computed only when there is one.
\<close>

definition standardized_flux_alert ::
  "'f float_ops \<Rightarrow> ('f \<Rightarrow> 'f \<Rightarrow> 'f \<Rightarrow> 'f \<Rightarrow> string \<Rightarrow> error + 'f \<times> 'f) \<Rightarrow> 'f epoch list
     \<Rightarrow> 'f catalog_row list \<Rightarrow> error + 'f list \<times> 'f list" where
  "standardized_flux_alert np apparent_flux pdf CTAO_blazar =
     (let std_flux = replicate (length pdf) (f_nan np);
          sigma_std_flux = replicate (length pdf) (f_nan np) in
      bind_e (py_index (map objectId pdf) 0) (\<lambda>name.
        let CTAO_data = filter (\<lambda>c. ZTF_Name c = name) CTAO_blazar in
        if CTAO_data \<noteq> [] then
          bind_e (flux_dc_sigma_flux_dc np apparent_flux pdf) (\<lambda>(flux_dc, sigma_flux_dc).
            filter_loop np pdf flux_dc sigma_flux_dc (unique (map cfid pdf))
              (std_flux, sigma_std_flux))
        else Inr (std_flux, sigma_std_flux)))"

section \<open>The batch dispatcher \<open>standardized_flux\<close>\<close>

text \<open>
  \<open>pd.DataFrame\<close> on a dictionary of scalars and arrays: pandas collects the lengths of
  the arrays and raises \<open>ValueError\<close> when they are not all the same; otherwise the scalars
  are repeated on every row.
\<close>

definition raw_lengths :: "'f batch_row \<Rightarrow> nat list" where
  "raw_lengths t =
     [length (row_cdistnr t), length (row_cmagpsf t), length (row_csigmapsf t),
      length (row_cmagnr t), length (row_csigmagnr t), length (row_cisdiffpos t),
      length (row_cfid t), length (row_cjd t)]"

definition DataFrame :: "'f batch_row \<Rightarrow> error + 'f epoch list" where
  "DataFrame t =
     (if length (remdups (raw_lengths t)) > 1 then Inl ValueError
      else Inr (map (\<lambda>i. \<lparr>candid = row_candid t, objectId = row_objectId t,
                          cdistnr = row_cdistnr t ! i, cmagpsf = row_cmagpsf t ! i,
                          csigmapsf = row_csigmapsf t ! i, cmagnr = row_cmagnr t ! i,
                          csigmagnr = row_csigmagnr t ! i, cisdiffpos = row_cisdiffpos t ! i,
                          cfid = row_cfid t ! i, cjd = row_cjd t ! i\<rparr>)
                  [0 ..< length (row_cdistnr t)]))"

text \<open>
  The body of the loop over the candid column: the rows of the batch with that candid,
  the history of the first of them as a frame, and the normalizer on it.
\<close>

definition process_candid ::
  "'f float_ops \<Rightarrow> ('f \<Rightarrow> 'f \<Rightarrow> 'f \<Rightarrow> 'f \<Rightarrow> string \<Rightarrow> error + 'f \<times> 'f) \<Rightarrow> 'f catalog_row list
     \<Rightarrow> 'f batch_row list \<Rightarrow> int \<Rightarrow> error + 'f list \<times> 'f list" where
  "process_candid np apparent_flux CTAO_blazar pdf candid_v =
     (let tmp = filter (\<lambda>t. row_candid t = candid_v) pdf in
      bind_e (py_index tmp 0) (\<lambda>t.
      bind_e (DataFrame t) (\<lambda>sub.
        standardized_flux_alert np apparent_flux sub CTAO_blazar)))"

text \<open>The UDF: one result per row of the batch, or the first exception. The catalog
  read from the parquet file is a parameter.\<close>

definition standardized_flux ::
  "'f float_ops \<Rightarrow> ('f \<Rightarrow> 'f \<Rightarrow> 'f \<Rightarrow> 'f \<Rightarrow> string \<Rightarrow> error + 'f \<times> 'f) \<Rightarrow> 'f catalog_row list
     \<Rightarrow> 'f batch_row list \<Rightarrow> error + ('f list \<times> 'f list) list" where
  "standardized_flux np apparent_flux CTAO_blazar pdf =
     mapM_e (process_candid np apparent_flux CTAO_blazar pdf) (map row_candid pdf)"

section \<open>Concrete inputs\<close>

text \<open>
  A concrete carrier for evaluating the definitions: exact arithmetic on the reals with
  one extra value \<open>None\<close> for not-a-number. It is used on concrete inputs only, with
  non-zero divisors.
\<close>

definition exact_ops :: "real option float_ops" where
  "exact_ops =
     \<lparr>f_nan = None, f_of_int = (\<lambda>i. Some (of_int i)),
      f_mul = (\<lambda>a b. case (a, b) of (Some x, Some y) \<Rightarrow> Some (x * y) | _ \<Rightarrow> None),
      f_div = (\<lambda>a b. case (a, b) of (Some x, Some y) \<Rightarrow> (if y = 0 then None else Some (x / y))
                         | _ \<Rightarrow> None)\<rparr>"

text \<open>Stand-ins for the imported primitive: one that hands back the measured magnitude and
  its uncertainty as the flux pair, the same with both results multiplied by \<open>k\<close>, and one
  that raises on every call.\<close>

definition plain_flux ::
  "real option \<Rightarrow> real option \<Rightarrow> real option \<Rightarrow> real option \<Rightarrow> string
     \<Rightarrow> error + real option \<times> real option" where
  "plain_flux magpsf sigmapsf magnr sigmagnr isdiffpos = Inr (magpsf, sigmapsf)"

definition scaled_flux ::
  "real \<Rightarrow> real option \<Rightarrow> real option \<Rightarrow> real option \<Rightarrow> real option \<Rightarrow> string
     \<Rightarrow> error + real option \<times> real option" where
  "scaled_flux k magpsf sigmapsf magnr sigmagnr isdiffpos =
     Inr (f_mul exact_ops (Some k) magpsf, f_mul exact_ops (Some k) sigmapsf)"

definition raising_flux ::
  "real option \<Rightarrow> real option \<Rightarrow> real option \<Rightarrow> real option \<Rightarrow> string
     \<Rightarrow> error + real option \<times> real option" where
  "raising_flux magpsf sigmapsf magnr sigmagnr isdiffpos = Inl (External ''apparent_flux'')"

definition an_epoch :: "string \<Rightarrow> int \<Rightarrow> real \<Rightarrow> real \<Rightarrow> real option epoch" where
  "an_epoch oid fid mag sig =
     \<lparr>candid = 1, objectId = oid, cdistnr = Some 0, cmagpsf = Some mag, csigmapsf = Some sig,
      cmagnr = Some 18, csigmagnr = Some 0.1, cisdiffpos = ''t'', cfid = fid, cjd = Some 2460000\<rparr>"

definition a_catalog :: "real option catalog_row list" where
  "a_catalog =
     [\<lparr>ZTF_Name = ''ZTF18aaaaaaa'', Array_of_Medians = [Some 2, Some 5]\<rparr>,
      \<lparr>ZTF_Name = ''ZTF19bbbbbbb'', Array_of_Medians = [Some 3]\<rparr>]"

definition a_batch_row :: "int \<Rightarrow> string \<Rightarrow> real option list \<Rightarrow> int list \<Rightarrow> real option batch_row" where
  "a_batch_row c oid mags fids =
     \<lparr>row_candid = c, row_objectId = oid, row_cdistnr = map (\<lambda>_. Some 0) mags,
      row_cmagpsf = mags, row_csigmapsf = map (\<lambda>_. Some 0.1) mags,
      row_cmagnr = map (\<lambda>_. Some 18) mags, row_csigmagnr = map (\<lambda>_. Some 0.1) mags,
      row_cisdiffpos = map (\<lambda>_. ''t'') mags, row_cfid = fids, row_cjd = map (\<lambda>_. Some 2460000) mags\<rparr>"

section \<open>Auxiliary facts\<close>

lemma bind_e_Inl: "bind_e (Inl e) k = Inl e"
  by (simp add: bind_e_def)

lemma bind_e_Inr: "bind_e (Inr x) k = k x"
  by (simp add: bind_e_def)

lemma bind_e_raises: "(\<And>x. k x = Inl e) \<Longrightarrow> \<exists>e'. bind_e m k = Inl e'"
  by (cases m) (simp_all add: bind_e_def)

lemma py_index_first: "py_index xs 0 = (case xs of [] \<Rightarrow> Inl IndexError | x # _ \<Rightarrow> Inr x)"
  by (cases xs) (simp_all add: py_index_def)

lemma load_precomputed_data: "load_global ''precomputed_data'' = Inl NameError"
  by (simp add: load_global_def utils_globals_def)

lemma filter_loop_raises:
  "filters \<noteq> [] \<Longrightarrow> filter_loop np pdf flux_dc sigma_flux_dc filters out = Inl NameError"
  by (cases filters; cases out) (simp_all add: load_precomputed_data bind_e_Inl)

lemma set_fold_unique:
  "set (fold (\<lambda>x acc. if x \<in> set acc then acc else acc @ [x]) xs acc) = set acc \<union> set xs"
  by (induction xs arbitrary: acc) auto

lemma set_unique: "set (unique xs) = set xs"
  by (simp add: unique_def set_fold_unique)

lemma unique_nonempty: "xs \<noteq> [] \<Longrightarrow> unique xs \<noteq> []"
  using set_unique [of xs] by (metis set_empty)

lemma mapM_e_all_Inr: "(\<forall>x \<in> set xs. f x = Inr (g x)) \<Longrightarrow> mapM_e f xs = Inr (map g xs)"
  by (induction xs) (simp_all add: bind_e_Inr)

lemma mapM_e_some_Inl: "x \<in> set xs \<Longrightarrow> f x = Inl e \<Longrightarrow> \<exists>e'. mapM_e f xs = Inl e'"
proof (induction xs)
  case Nil
  then show ?case by simp
next
  case (Cons y ys)
  show ?case
  proof (cases "f y")
    case (Inl a)
    then show ?thesis by (simp add: bind_e_Inl)
  next
    case (Inr b)
    with Cons have "x \<in> set ys" by auto
    with Cons obtain e' where "mapM_e f ys = Inl e'" by blast
    with Inr show ?thesis by (simp add: bind_e_Inl bind_e_Inr)
  qed
qed

lemma transpose_pairs:
  assumes "res \<noteq> []"
  shows "transpose (map (\<lambda>(flux, sigma). [flux, sigma]) res) = [map fst res, map snd res]"
proof -
  let ?rows = "map (\<lambda>(flux, sigma). [flux, sigma]) res"
  have two: "[0..<2] = [0, Suc 0]"
    by (simp add: upt_rec)
  have "transpose ?rows = map (\<lambda>i. map (\<lambda>j. ?rows ! j ! i) [0..<length ?rows]) [0..<2]"
    using assms by (intro transpose_rectangle) (auto simp add: split_def)
  also have "\<dots> = [map (\<lambda>j. ?rows ! j ! 0) [0..<length res], map (\<lambda>j. ?rows ! j ! 1) [0..<length res]]"
    by (simp add: two)
  also have "map (\<lambda>j. ?rows ! j ! 0) [0..<length res] = map fst res"
    by (rule nth_equalityI) (auto simp add: split_def)
  also have "map (\<lambda>j. ?rows ! j ! 1) [0..<length res] = map snd res"
    by (rule nth_equalityI) (auto simp add: split_def)
  finally show ?thesis .
qed

lemma flux_dc_sigma_flux_dc_value:
  assumes "pdf \<noteq> []"
    and "\<forall>r \<in> set pdf. apparent_flux (cmagpsf r) (csigmapsf r) (cmagnr r) (csigmagnr r) (cisdiffpos r) = Inr (g r)"
  shows "flux_dc_sigma_flux_dc np apparent_flux pdf =
           Inr (map (\<lambda>r. f_mul np (f_of_int np 1000) (fst (g r))) pdf,
                map (\<lambda>r. f_mul np (f_of_int np 1000) (snd (g r))) pdf)"
proof -
  let ?scale = "f_mul np (f_of_int np 1000)"
  have m: "mapM_e (\<lambda>r. apparent_flux (cmagpsf r) (csigmapsf r) (cmagnr r) (csigmagnr r) (cisdiffpos r)) pdf
          = Inr (map g pdf)"
    using assms(2) by (rule mapM_e_all_Inr)
  have t: "transpose (map (\<lambda>(flux, sigma). [flux, sigma]) (map g pdf))
                   = [map fst (map g pdf), map snd (map g pdf)]"
    using assms(1) by (intro transpose_pairs) simp
  have "flux_dc_sigma_flux_dc np apparent_flux pdf =
          unpack2 (map (map ?scale) (transpose (map (\<lambda>(flux, sigma). [flux, sigma]) (map g pdf))))"
    by (simp only: flux_dc_sigma_flux_dc_def m bind_e_Inr)
  also have "\<dots> = unpack2 (map (map ?scale) [map fst (map g pdf), map snd (map g pdf)])"
    by (simp only: t)
  also have "\<dots> = Inr (map (\<lambda>r. ?scale (fst (g r))) pdf, map (\<lambda>r. ?scale (snd (g r))) pdf)"
    by (simp add: unpack2_def comp_def)
  finally show ?thesis .
qed

lemma present_alert:
  assumes "pdf \<noteq> []" and "filter (\<lambda>c. ZTF_Name c = objectId (hd pdf)) CTAO_blazar \<noteq> []"
  shows "standardized_flux_alert np apparent_flux pdf CTAO_blazar =
           bind_e (flux_dc_sigma_flux_dc np apparent_flux pdf) (\<lambda>(flux_dc, sigma_flux_dc).
             filter_loop np pdf flux_dc sigma_flux_dc (unique (map cfid pdf))
               (replicate (length pdf) (f_nan np), replicate (length pdf) (f_nan np)))"
  using assms by (cases pdf) (simp_all add: standardized_flux_alert_def py_index_first bind_e_Inr Let_def)

lemma present_alert_raises:
  assumes "pdf \<noteq> []" and "filter (\<lambda>c. ZTF_Name c = objectId (hd pdf)) CTAO_blazar \<noteq> []"
  shows "\<exists>e. standardized_flux_alert np apparent_flux pdf CTAO_blazar = Inl e"
proof -
  have "unique (map cfid pdf) \<noteq> []" using assms(1) by (simp add: unique_nonempty)
  then have "\<And>x. (case x of (flux_dc, sigma_flux_dc) \<Rightarrow>
             filter_loop np pdf flux_dc sigma_flux_dc (unique (map cfid pdf))
               (replicate (length pdf) (f_nan np), replicate (length pdf) (f_nan np))) = Inl NameError"
    by (simp add: filter_loop_raises split: prod.splits)
  then show ?thesis
    unfolding present_alert [OF assms] by (rule bind_e_raises)
qed

lemma absent_alert:
  assumes "pdf \<noteq> []" and "filter (\<lambda>c. ZTF_Name c = objectId (hd pdf)) CTAO_blazar = []"
  shows "standardized_flux_alert np apparent_flux pdf CTAO_blazar =
           Inr (replicate (length pdf) (f_nan np), replicate (length pdf) (f_nan np))"
  using assms by (cases pdf) (simp_all add: standardized_flux_alert_def py_index_first bind_e_Inr Let_def)

lemma filter_distinct_key:
  "distinct (map f xs) \<Longrightarrow> t \<in> set xs \<Longrightarrow> filter (\<lambda>x. f x = f t) xs = [t]"
proof (induction xs)
  case Nil
  then show ?case by simp
next
  case (Cons a xs)
  show ?case
  proof (cases "a = t")
    case True
    with Cons.prems have "f t \<notin> f ` set xs" by simp
    then have "filter (\<lambda>x. f x = f t) xs = []"
      by (auto simp add: filter_empty_conv image_iff)
    with True show ?thesis by simp
  next
    case False
    with Cons.prems have "t \<in> set xs" and "f a \<noteq> f t" by auto
    with Cons show ?thesis by simp
  qed
qed

lemma unequal_lengths_remdups:
  assumes "n \<in> set ls" and "m \<in> set ls" and "n \<noteq> m"
  shows "1 < length (remdups ls)"
proof -
  have "\<not> card (set ls) \<le> Suc 0"
    using assms by (auto simp add: card_le_Suc0_iff_eq)
  then show ?thesis by (simp add: length_remdups_card_conv)
qed

section \<open>The claims\<close>

lemmas eval_defs = standardized_flux_alert_def py_index_def bind_e_def flux_dc_sigma_flux_dc_def
  unpack2_def unique_def load_global_def utils_globals_def exact_ops_def plain_flux_def
  scaled_flux_def raising_flux_def an_epoch_def a_catalog_def

text \<open>
  Claim C1 (median of the matched catalog row at index \<open>fid - 1\<close>): the intended result
  for two epochs in filter 1 with scaled fluxes 4 and 6 and median 2 is \<open>([2, 3], [0.2, 0.3])\<close>.
  The code reads the median through the unbound name \<open>precomputed_data\<close> instead of the
  matched rows \<open>CTAO_data\<close>, so the call raises \<open>NameError\<close> and returns nothing.
\<close>

theorem C1_median_lookup_raises_NameError:
  "standardized_flux_alert exact_ops plain_flux
     [an_epoch ''ZTF18aaaaaaa'' 1 0.004 0.0004, an_epoch ''ZTF18aaaaaaa'' 1 0.006 0.0006] a_catalog
   = Inl NameError"
  by (simp add: eval_defs)

text \<open>
  Claim C2, for a history with at least one epoch: when the objectId of the alert (read
  from the first row of the frame) is the name of no catalog row, the normalizer returns
  two sequences of not-a-number values, as long as the history. The primitive
  \<open>apparent_flux\<close> is arbitrary here, so the result is the same with a primitive that raises
  on every call: it is not invoked, and no exception is raised.
\<close>

theorem C2_absent_objectId_all_nan:
  assumes "pdf \<noteq> []" and "objectId (hd pdf) \<notin> ZTF_Name ` set CTAO_blazar"
  shows "standardized_flux_alert np apparent_flux pdf CTAO_blazar =
           Inr (replicate (length pdf) (f_nan np), replicate (length pdf) (f_nan np))"
proof -
  have "filter (\<lambda>c. ZTF_Name c = objectId (hd pdf)) CTAO_blazar = []"
    using assms(2) by (auto simp add: filter_empty_conv image_iff)
  with assms(1) show ?thesis by (rule absent_alert)
qed

theorem C2_absent_objectId_all_nan_witness:
  "[an_epoch ''ZTF20ccccccc'' 1 17 0.1, an_epoch ''ZTF20ccccccc'' 2 16 0.2] \<noteq> []
   \<and> objectId (hd [an_epoch ''ZTF20ccccccc'' 1 17 0.1, an_epoch ''ZTF20ccccccc'' 2 16 0.2])
       \<notin> ZTF_Name ` set a_catalog
   \<and> standardized_flux_alert exact_ops raising_flux
       [an_epoch ''ZTF20ccccccc'' 1 17 0.1, an_epoch ''ZTF20ccccccc'' 2 16 0.2] a_catalog
       = Inr ([None, None], [None, None])"
  using C2_absent_objectId_all_nan
    [of "[an_epoch ''ZTF20ccccccc'' 1 17 0.1, an_epoch ''ZTF20ccccccc'' 2 16 0.2]" a_catalog
        exact_ops raising_flux]
  by (simp add: an_epoch_def a_catalog_def exact_ops_def)

text \<open>
  Without an epoch the statement fails: an alert of the batch whose objectId is in no
  catalog row and whose history arrays are empty gives a frame without rows, on which the
  normalizer raises \<open>IndexError\<close> instead of returning two empty sequences.
\<close>

theorem C2_absent_objectId_zero_epochs_counterexample:
  "row_objectId (a_batch_row 1 ''ZTF20ccccccc'' [] []) \<notin> ZTF_Name ` set a_catalog
   \<and> DataFrame (a_batch_row 1 ''ZTF20ccccccc'' [] []) = Inr []
   \<and> process_candid exact_ops plain_flux a_catalog [a_batch_row 1 ''ZTF20ccccccc'' [] []] 1
       = Inl IndexError
   \<and> process_candid exact_ops plain_flux a_catalog [a_batch_row 1 ''ZTF20ccccccc'' [] []] 1
       \<noteq> Inr ([], [])"
  by (simp add: a_batch_row_def a_catalog_def DataFrame_def raw_lengths_def process_candid_def
        standardized_flux_alert_def py_index_def bind_e_def)

text \<open>
  Claim C3, as the code has it: on a history without epochs the normalizer raises
  \<open>IndexError\<close> when it reads the objectId of the first row. It does so whatever the catalog
  and the primitive are (neither is consulted), and it returns no sequences.
\<close>

theorem C3_zero_epochs_raise_IndexError:
  "standardized_flux_alert np apparent_flux [] CTAO_blazar = Inl IndexError"
  by (simp add: standardized_flux_alert_def py_index_def bind_e_def)

text \<open>The pair of empty sequences is not what the empty history yields.\<close>

theorem C3_zero_epochs_counterexample:
  "standardized_flux_alert exact_ops plain_flux [] a_catalog \<noteq> Inr ([], [])"
  by (simp add: standardized_flux_alert_def py_index_def bind_e_def)


text \<open>
  Claim C6: two invocations on the same alert history and the same catalog have the same
  outcome, the same pair of sequences or the same exception. The function reads nothing
  but its arguments and the (fixed) module namespace.
\<close>

theorem C6_deterministic:
  assumes "pdf = pdf'" and "CTAO_blazar = CTAO_blazar'"
  shows "standardized_flux_alert np apparent_flux pdf CTAO_blazar =
         standardized_flux_alert np apparent_flux pdf' CTAO_blazar'"
  using assms by simp

theorem C6_deterministic_witness:
  "standardized_flux_alert exact_ops plain_flux [an_epoch ''ZTF20ccccccc'' 1 17 0.1] a_catalog =
   standardized_flux_alert exact_ops plain_flux [an_epoch ''ZTF20ccccccc'' 1 17 0.1] a_catalog"
  using C6_deterministic
    [of "[an_epoch ''ZTF20ccccccc'' 1 17 0.1]" "[an_epoch ''ZTF20ccccccc'' 1 17 0.1]"
        a_catalog a_catalog exact_ops plain_flux]
  by simp

text \<open>
  Claim C7 (linearity in the fluxes): for an alert found in the catalog the call raises
  \<open>NameError\<close> with the fluxes of the primitive and again with these fluxes doubled, so
  there is no standardized value that doubles.
\<close>

theorem C7_scaled_fluxes_raise_NameError:
  "standardized_flux_alert exact_ops (scaled_flux 1)
     [an_epoch ''ZTF19bbbbbbb'' 1 6 0.3] a_catalog = Inl NameError
   \<and> standardized_flux_alert exact_ops (scaled_flux 2)
     [an_epoch ''ZTF19bbbbbbb'' 1 6 0.3] a_catalog = Inl NameError"
  by (simp add: eval_defs)

text \<open>
  Claim C8 (output as long as the history, each value from its own epoch and the median of
  its own filter): for a history of two epochs in filters 1 and 2 of a catalogued source,
  the call raises \<open>NameError\<close>; no sequences of length 2 are returned.
\<close>

theorem C8_two_filters_raise_NameError:
  "standardized_flux_alert exact_ops plain_flux
     [an_epoch ''ZTF18aaaaaaa'' 1 0.004 0.0004, an_epoch ''ZTF18aaaaaaa'' 2 0.01 0.001] a_catalog
   = Inl NameError"
  by (simp add: eval_defs)

text \<open>
  Claim C9: in a batch whose candid values are distinct, an alert whose eight history
  arrays (distnr, magpsf, sigmapsf, magnr, sigmagnr, isdiffpos, fid, jd) do not all have
  the same length makes the frame constructor raise \<open>ValueError\<close> for that alert, and the
  UDF as a whole raises: the arrays are neither truncated nor padded.
\<close>

theorem C9_mismatched_lengths_raise:
  assumes "distinct (map row_candid pdf)" and "t \<in> set pdf"
    and "\<exists>n \<in> set (raw_lengths t). \<exists>m \<in> set (raw_lengths t). n \<noteq> m"
  shows "process_candid np apparent_flux CTAO_blazar pdf (row_candid t) = Inl ValueError
         \<and> (\<exists>e. standardized_flux np apparent_flux CTAO_blazar pdf = Inl e)"
proof -
  have tmp: "filter (\<lambda>x. row_candid x = row_candid t) pdf = [t]"
    using assms(1,2) by (rule filter_distinct_key)
  from assms(3) obtain n m
    where "n \<in> set (raw_lengths t)" and "m \<in> set (raw_lengths t)" and "n \<noteq> m"
    by blast
  then have "1 < length (remdups (raw_lengths t))"
    by (rule unequal_lengths_remdups)
  then have "DataFrame t = Inl ValueError"
    by (simp add: DataFrame_def)
  with tmp have one: "process_candid np apparent_flux CTAO_blazar pdf (row_candid t) = Inl ValueError"
    by (simp add: process_candid_def py_index_first bind_e_Inl bind_e_Inr)
  have "row_candid t \<in> set (map row_candid pdf)" using assms(2) by simp
  then have "\<exists>e. mapM_e (process_candid np apparent_flux CTAO_blazar pdf) (map row_candid pdf) = Inl e"
    using one by (rule mapM_e_some_Inl)
  with one show ?thesis by (simp add: standardized_flux_def)
qed

theorem C9_mismatched_lengths_raise_witness:
  "process_candid exact_ops plain_flux a_catalog
     [a_batch_row 1 ''ZTF20ccccccc'' [Some 17] [1], a_batch_row 2 ''ZTF20ccccccc'' [Some 17, Some 16] [1]] 2
     = Inl ValueError
   \<and> (\<exists>e. standardized_flux exact_ops plain_flux a_catalog
     [a_batch_row 1 ''ZTF20ccccccc'' [Some 17] [1], a_batch_row 2 ''ZTF20ccccccc'' [Some 17, Some 16] [1]]
     = Inl e)"
proof -
  let ?t = "a_batch_row 2 ''ZTF20ccccccc'' [Some 17, Some 16] [1]"
  let ?pdf = "[a_batch_row 1 ''ZTF20ccccccc'' [Some 17] [1], ?t]"
  have h1: "distinct (map row_candid ?pdf)"
    by (simp add: a_batch_row_def)
  have h2: "?t \<in> set ?pdf"
    by simp
  have "length (row_cmagpsf ?t) \<in> set (raw_lengths ?t)"
    and "length (row_cfid ?t) \<in> set (raw_lengths ?t)"
    and "length (row_cmagpsf ?t) \<noteq> length (row_cfid ?t)"
    by (simp_all add: a_batch_row_def raw_lengths_def)
  then have h3: "\<exists>n \<in> set (raw_lengths ?t). \<exists>m \<in> set (raw_lengths ?t). n \<noteq> m"
    by blast
  have "row_candid ?t = 2"
    by (simp add: a_batch_row_def)
  with C9_mismatched_lengths_raise [OF h1 h2 h3, of exact_ops plain_flux a_catalog]
  show ?thesis by simp
qed

text \<open>
  Claim C10 (key from the first row; with several catalog rows of that name, the fields of
  the first match are used): for a catalog with two rows named like the alert, with
  medians \<open>[2, 5]\<close> and \<open>[7, 9]\<close>, the call raises \<open>NameError\<close>, and so it does with the
  two rows exchanged. The matched rows are consulted for emptiness only; the selection of
  the first one at line 52 is applied to the unbound name \<open>precomputed_data\<close>, so the
  fields of no match are used.
\<close>

theorem C10_first_match_fields_never_read:
  "standardized_flux_alert exact_ops plain_flux [an_epoch ''ZTF18aaaaaaa'' 1 0.004 0.0004]
     [\<lparr>ZTF_Name = ''ZTF18aaaaaaa'', Array_of_Medians = [Some 2, Some 5]\<rparr>,
      \<lparr>ZTF_Name = ''ZTF18aaaaaaa'', Array_of_Medians = [Some 7, Some 9]\<rparr>]
     = Inl NameError
   \<and> standardized_flux_alert exact_ops plain_flux [an_epoch ''ZTF18aaaaaaa'' 1 0.004 0.0004]
     [\<lparr>ZTF_Name = ''ZTF18aaaaaaa'', Array_of_Medians = [Some 7, Some 9]\<rparr>,
      \<lparr>ZTF_Name = ''ZTF18aaaaaaa'', Array_of_Medians = [Some 2, Some 5]\<rparr>]
     = Inl NameError"
  by (simp add: eval_defs)

end
